theory Spec2Isabelle
  imports Complex_Main "HOL-Library.Word" "HOL-Library.Sublist" "HOL-Library.AList"
    "HOL-Library.Multiset"
begin

section \<open>Python values, exceptions and library functions\<close>

text \<open>
  The controller is dynamically typed: \<open>send_command\<close> returns \<open>False\<close>, \<open>True\<close>, a
  path, a file identifier or a whole decoded reply. All of them are values of one type.
  A dictionary is the list of its items, looked up with \<open>map_of\<close>. Decoded replies hold
  no fractional number: the model covers null, booleans, integers, strings, arrays and
  objects.
\<close>

type_synonym bytes = "8 word list"

datatype pyval =
    PNone
  | PBool bool
  | PInt int
  | PStr string
  | PList "pyval list"
  | PDict "(string \<times> pyval) list"

datatype exn =
    ConnectionError
  | SocketTimeout
  | OSError
  | JSONDecodeError
  | KeyError
  | TypeError
  | OverflowError

text \<open>Truth value of an object, as \<open>if x:\<close> and \<open>x or y\<close> test it.\<close>

fun truthy :: "pyval \<Rightarrow> bool" where
  "truthy PNone = False"
| "truthy (PBool b) = b"
| "truthy (PInt n) = (n \<noteq> 0)"
| "truthy (PStr s) = (s \<noteq> [])"
| "truthy (PList xs) = (xs \<noteq> [])"
| "truthy (PDict kvs) = (kvs \<noteq> [])"

text \<open>\<open>isinstance(x, str)\<close>.\<close>

fun is_str :: "pyval \<Rightarrow> bool" where
  "is_str (PStr s) = True"
| "is_str v = False"

text \<open>\<open>key in x\<close> for a string key: membership of a key in a dictionary, of an element in
  a list, of a substring in a string; any other object is not iterable.\<close>

fun py_in :: "string \<Rightarrow> pyval \<Rightarrow> exn + bool" where
  "py_in k (PDict kvs) = Inr (k \<in> set (map fst kvs))"
| "py_in k (PList xs) = Inr (PStr k \<in> set xs)"
| "py_in k (PStr s) = Inr (sublist k s)"
| "py_in k v = Inl TypeError"

text \<open>\<open>x[key]\<close> for a string key: only a dictionary can be indexed by a string.\<close>

fun subscript :: "pyval \<Rightarrow> string \<Rightarrow> exn + pyval" where
  "subscript (PDict kvs) k = (case map_of kvs k of None \<Rightarrow> Inl KeyError | Some v \<Rightarrow> Inr v)"
| "subscript v k = Inl TypeError"

text \<open>The number behind \<open>f"{file_size:,}"\<close> and \<open>file_size / 1024\<close>: integers and
  booleans format and divide, every other decoded value raises. The division of an
  integer raises as well when the quotient is rounded beyond the largest float, that is
  from \<open>1024 * (2 ^ 1024 - 2 ^ 970)\<close> on.\<close>

definition float_limit :: int where
  "float_limit = 2 ^ 1034 - 2 ^ 980"

fun as_int :: "pyval \<Rightarrow> exn + int" where
  "as_int (PInt n) = (if abs n < float_limit then Inr n else Inl OverflowError)"
| "as_int (PBool b) = Inr (if b then 1 else 0)"
| "as_int v = Inl TypeError"

text \<open>
  Functions of the Python standard library that the controller calls and that are taken
  as given: \<open>json.loads(data.decode('utf-8'))\<close> (\<open>None\<close> when either step raises),
  \<open>str\<close> as an f-string applies it, and \<open>Path(p).name\<close>.
\<close>

record pylib =
  json_decode :: "bytes \<Rightarrow> pyval option"
  str_of :: "pyval \<Rightarrow> string"
  path_name :: "string \<Rightarrow> string"

text \<open>\<open>struct.unpack('>I', b)[0]\<close> on four bytes.\<close>

definition unpack_be32 :: "bytes \<Rightarrow> nat" where
  "unpack_be32 b = foldl (\<lambda>acc x. acc * 256 + unat x) 0 b"

text \<open>\<open>os.path.join(a, b)\<close> on POSIX.\<close>

definition path_join :: "string \<Rightarrow> string \<Rightarrow> string" where
  "path_join a b =
     (if b \<noteq> [] \<and> hd b = CHR ''/'' then b
      else if a = [] \<or> last a = CHR ''/'' then a @ b
      else a @ ''/'' @ b)"

section \<open>The environment: clock, network, local files, object store\<close>

record message =
  command :: string
  timestamp :: real
  deviceId :: string
  fileId :: "pyval option"

text \<open>What one \<open>recv\<close> on a connection meets: bytes that have arrived, a read timeout, or
  another socket error. A connection whose script is used up is closed by the peer. A
  peer refuses the connection, or accepts it and fails the send, or answers the envelope
  it was sent with a script.\<close>

datatype event = Data bytes | Timeout | Reset

record peer =
  refuses :: bool
  send_fails :: bool
  reply :: "message \<Rightarrow> event list"

text \<open>
  The state outside the program. \<open>now\<close> gives the successive readings of the clock and
  \<open>ticks\<close> counts the readings taken. \<open>conns\<close> records every connection attempt with the
  envelope built for it. \<open>files\<close> is the local file system; \<open>unwritable\<close> holds of the
  paths that cannot be created or opened for writing, \<open>undeletable\<close> of those that
  \<open>os.remove\<close> cannot remove. \<open>session_stamp\<close> is the folder name that the current date
  and time give, \<open>put_fails\<close> holds of the keys whose upload the object store rejects,
  and \<open>bucket\<close> records the objects stored. \<open>schedule\<close> decides the order in which
  the threads of a broadcast get to run. Timestamps are real numbers.
\<close>

record world =
  now :: "nat \<Rightarrow> real"
  ticks :: nat
  peers :: "string \<Rightarrow> int \<Rightarrow> peer"
  conns :: "(string \<times> int \<times> message) list"
  home :: string
  files :: "string \<rightharpoonup> bytes"
  unwritable :: "string \<Rightarrow> bool"
  undeletable :: "string \<Rightarrow> bool"
  session_stamp :: string
  put_fails :: "string \<Rightarrow> bool"
  bucket :: "(string \<times> bytes) list"
  schedule :: "nat list"

text \<open>\<open>time.time()\<close>: the next reading of the clock.\<close>

definition time_time :: "world \<Rightarrow> real \<times> world" where
  "time_time w = (now w (ticks w), w\<lparr>ticks := Suc (ticks w)\<rparr>)"

text \<open>\<open>sock.recv(n)\<close>: at most \<open>n\<close> of the bytes that have arrived; \<open>b""\<close> once the peer
  has closed.\<close>

fun recv :: "nat \<Rightarrow> event list \<Rightarrow> (exn + bytes) \<times> event list" where
  "recv n [] = (Inr [], [])"
| "recv n (Data bs # es) =
     (if length bs \<le> n then (Inr bs, es) else (Inr (take n bs), Data (drop n bs) # es))"
| "recv n (Timeout # es) = (Inl SocketTimeout, es)"
| "recv n (Reset # es) = (Inl OSError, es)"

section \<open>MultiCamController\<close>

record device =
  ip :: string
  port :: int

text \<open>\<open>timestamp or time.time()\<close>: the clock is read when the timestamp is \<open>None\<close> or
  zero, and only then.\<close>

definition or_time :: "real option \<Rightarrow> world \<Rightarrow> real \<times> world" where
  "or_time ts w = (case ts of
                     None \<Rightarrow> time_time w
                   | Some t \<Rightarrow> if t \<noteq> 0 then (t, w) else time_time w)"

text \<open>\<open>send_command\<close>, lines 74 to 81: the envelope. \<open>if file_id:\<close> skips every falsy
  identifier, \<open>None\<close> and the empty string among them.\<close>

definition build_message ::
  "world \<Rightarrow> string \<Rightarrow> real option \<Rightarrow> pyval \<Rightarrow> message \<times> world" where
  "build_message w cmd ts file_id =
     (let (t, w1) = or_time ts w
      in (\<lparr>command = cmd, timestamp = t, deviceId = ''controller'',
           fileId = (if truthy file_id then Some file_id else None)\<rparr>, w1))"

text \<open>\<open>_handle_file_download\<close>, the loop reading the metadata block.\<close>

function recv_header :: "nat \<Rightarrow> event list \<Rightarrow> bytes \<Rightarrow> (exn + bytes) \<times> event list" where
  "recv_header header_size sock header_data =
     (if length header_data < header_size then
        (case recv (header_size - length header_data) sock of
           (Inl e, sock') \<Rightarrow> (Inl e, sock')
         | (Inr chunk, sock') \<Rightarrow>
             if chunk = [] then (Inr header_data, sock')
             else recv_header header_size sock' (header_data @ chunk))
      else (Inr header_data, sock))"
  by pat_completeness auto
termination
proof (relation "measure (\<lambda>(header_size, sock, header_data). header_size - length header_data)")
  show "wf (measure (\<lambda>(header_size, sock, header_data). header_size - length header_data))"
    by simp
next
  fix header_size :: nat and sock :: "event list" and header_data x :: bytes
    and xa :: "exn + bytes" and y :: "event list" and b :: bytes
  assume "length header_data < header_size" and "b \<noteq> []"
  then show "((header_size, y, header_data @ b), header_size, sock, header_data)
      \<in> measure (\<lambda>(header_size, sock, header_data). header_size - length header_data)"
    by (cases b) auto
qed

text \<open>\<open>_handle_file_download\<close>, the loop writing the file: it returns the exception that
  ended it, if any, and what has been written.\<close>

function recv_file :: "int \<Rightarrow> int \<Rightarrow> event list \<Rightarrow> bytes \<Rightarrow> exn option \<times> bytes" where
  "recv_file file_size bytes_received sock written =
     (if bytes_received < file_size then
        (case recv (nat (min 8192 (file_size - bytes_received))) sock of
           (Inl e, sock') \<Rightarrow> (Some e, written)
         | (Inr chunk, sock') \<Rightarrow>
             if chunk = [] then (None, written)
             else recv_file file_size (bytes_received + int (length chunk)) sock'
                    (written @ chunk))
      else (None, written))"
  by pat_completeness auto
termination
proof (relation "measure (\<lambda>(file_size, bytes_received, sock, written).
                   nat (file_size - bytes_received))")
  show "wf (measure (\<lambda>(file_size, bytes_received, sock, written).
                   nat (file_size - bytes_received)))"
    by simp
next
  fix file_size bytes_received :: int and sock :: "event list" and written :: bytes
    and x :: "(exn + bytes) \<times> event list" and xa :: "exn + bytes" and y :: "event list"
    and b :: bytes
  assume "bytes_received < file_size" and "b \<noteq> []"
  then show "((file_size, bytes_received + int (length b), y, written @ b),
       file_size, bytes_received, sock, written)
      \<in> measure (\<lambda>(file_size, bytes_received, sock, written).
                   nat (file_size - bytes_received))"
    by (cases b) auto
qed

declare recv_header.simps [simp del]
declare recv_file.simps [simp del]

text \<open>What a connection still holds: every \<open>recv\<close> that returns bytes makes it smaller.\<close>

fun sock_size :: "event list \<Rightarrow> nat" where
  "sock_size [] = 0"
| "sock_size (Data bs # es) = Suc (length bs + sock_size es)"
| "sock_size (e # es) = Suc (sock_size es)"

lemma recv_smaller:
  "recv n sock = (Inr chunk, sock') \<Longrightarrow> chunk \<noteq> [] \<Longrightarrow> sock_size sock' < sock_size sock"
  by (induction n sock rule: recv.induct) (auto split: if_splits)

text \<open>\<open>send_command\<close>, lines 108 to 124: the loop that collects a \<open>LIST_FILES\<close> reply. A
  timeout ends it like a closed connection does; any other socket error leaves it.\<close>

function recv_list_files ::
  "pylib \<Rightarrow> event list \<Rightarrow> bytes \<Rightarrow> (exn + bytes) \<times> event list" where
  "recv_list_files lib sock response_data =
     (case recv 8192 sock of
        (Inl e, sock') \<Rightarrow>
          if e = SocketTimeout then (Inr response_data, sock') else (Inl e, sock')
      | (Inr chunk, sock') \<Rightarrow>
          if chunk = [] then (Inr response_data, sock')
          else (case json_decode lib (response_data @ chunk) of
                  Some v \<Rightarrow> (Inr (response_data @ chunk), sock')
                | None \<Rightarrow> recv_list_files lib sock' (response_data @ chunk)))"
  by pat_completeness auto
termination
  apply (relation "measure (\<lambda>(lib, sock, response_data). sock_size sock)")
   apply simp
  apply (auto dest: recv_smaller [OF sym])
  done

declare recv_list_files.simps [simp del]

text \<open>\<open>os.path.expanduser("~/Downloads/multiCam")\<close>.\<close>

definition downloads_dir :: "world \<Rightarrow> string" where
  "downloads_dir w = home w @ ''/Downloads/multiCam''"

text \<open>\<open>device_ip.replace('.', '_')\<close>.\<close>

definition replace_dots :: "string \<Rightarrow> string" where
  "replace_dots s = map (\<lambda>c. if c = CHR ''.'' then CHR ''_'' else c) s"

text \<open>\<open>_handle_file_download\<close>, lines 188 to 207: the file is created when it is opened,
  and what was written stays when the loop is left, by \<open>break\<close> or by an exception. After
  the loop the path is returned.\<close>

definition write_download ::
  "world \<Rightarrow> event list \<Rightarrow> string \<Rightarrow> int \<Rightarrow> (exn + pyval) \<times> world" where
  "write_download w sock local_path file_size =
     (if unwritable w local_path then (Inl OSError, w)
      else
        (case recv_file file_size 0 sock [] of
           (Some e, written) \<Rightarrow> (Inl e, w\<lparr>files := (files w)(local_path \<mapsto> written)\<rparr>)
         | (None, written) \<Rightarrow>
             (Inr (PStr local_path), w\<lparr>files := (files w)(local_path \<mapsto> written)\<rparr>)))"

text \<open>\<open>_handle_file_download\<close>, lines 172 to 186: the metadata block and the local path.\<close>

definition parse_header ::
  "pylib \<Rightarrow> world \<Rightarrow> string \<Rightarrow> bytes \<Rightarrow> exn + string \<times> int" where
  "parse_header lib w device_ip header_data =
     (case json_decode lib header_data of
        None \<Rightarrow> Inl JSONDecodeError
      | Some header_info \<Rightarrow>
          (case subscript header_info ''fileName'' of
             Inl e \<Rightarrow> Inl e
           | Inr file_name \<Rightarrow>
               (case subscript header_info ''fileSize'' of
                  Inl e \<Rightarrow> Inl e
                | Inr fs \<Rightarrow>
                    (case as_int fs of
                       Inl e \<Rightarrow> Inl e
                     | Inr file_size \<Rightarrow>
                         Inr (path_join (downloads_dir w)
                                (replace_dots device_ip @ ''_'' @ str_of lib file_name),
                              file_size)))))"

text \<open>The body of \<open>_handle_file_download\<close> inside its \<open>try\<close>.\<close>

definition handle_file_download_try ::
  "pylib \<Rightarrow> world \<Rightarrow> event list \<Rightarrow> string \<Rightarrow> pyval \<Rightarrow> (exn + pyval) \<times> world" where
  "handle_file_download_try lib w sock device_ip file_id =
     (case recv 4 sock of
        (Inl e, sock1) \<Rightarrow> (Inl e, w)
      | (Inr header_size_data, sock1) \<Rightarrow>
          if length header_size_data \<noteq> 4 then (Inr (PBool False), w)
          else
            (case recv_header (unpack_be32 header_size_data) sock1 [] of
               (Inl e, sock2) \<Rightarrow> (Inl e, w)
             | (Inr header_data, sock2) \<Rightarrow>
                 (case parse_header lib w device_ip header_data of
                    Inl e \<Rightarrow> (Inl e, w)
                  | Inr (local_path, file_size) \<Rightarrow>
                      write_download w sock2 local_path file_size)))"

text \<open>\<open>_handle_file_download\<close>: every exception of the body becomes \<open>False\<close>.\<close>

definition handle_file_download ::
  "pylib \<Rightarrow> world \<Rightarrow> event list \<Rightarrow> string \<Rightarrow> pyval \<Rightarrow> pyval \<times> world" where
  "handle_file_download lib w sock device_ip file_id =
     (case handle_file_download_try lib w sock device_ip file_id of
        (Inl e, w') \<Rightarrow> (PBool False, w')
      | (Inr v, w') \<Rightarrow> (v, w'))"

text \<open>\<open>send_command\<close>, lines 128 to 143: what is made of the bytes of a reply.\<close>

definition interpret_reply :: "pylib \<Rightarrow> string \<Rightarrow> bytes \<Rightarrow> exn + pyval" where
  "interpret_reply lib cmd response_data =
     (if response_data \<noteq> [] then
        (case json_decode lib response_data of
           None \<Rightarrow> Inl JSONDecodeError
         | Some response_json \<Rightarrow>
             if cmd = ''STOP_RECORDING'' then
               (case py_in ''fileId'' response_json of
                  Inl e \<Rightarrow> Inl e
                | Inr False \<Rightarrow> Inr response_json
                | Inr True \<Rightarrow>
                    (case subscript response_json ''fileId'' of
                       Inl e \<Rightarrow> Inl e
                     | Inr v \<Rightarrow> if truthy v then Inr v else Inr response_json))
             else Inr response_json)
      else Inr (PBool True))"

text \<open>The body of \<open>send_command\<close> inside its \<open>try\<close>. The connection attempt is recorded
  with the envelope that was built for it.\<close>

definition send_command_try ::
  "pylib \<Rightarrow> world \<Rightarrow> string \<Rightarrow> int \<Rightarrow> string \<Rightarrow> real option \<Rightarrow> pyval
     \<Rightarrow> (exn + pyval) \<times> world" where
  "send_command_try lib w device_ip device_port cmd ts file_id =
     (let (msg, w1) = build_message w cmd ts file_id;
          w2 = w1\<lparr>conns := conns w1 @ [(device_ip, device_port, msg)]\<rparr>;
          p = peers w2 device_ip device_port
      in if refuses p then (Inl ConnectionError, w2)
         else if send_fails p then (Inl OSError, w2)
         else if cmd = ''GET_VIDEO'' then
           (case handle_file_download lib w2 (reply p msg) device_ip file_id of
              (v, w3) \<Rightarrow> (Inr v, w3))
         else
           (case (if cmd = ''LIST_FILES'' then fst (recv_list_files lib (reply p msg) [])
                  else fst (recv 4096 (reply p msg))) of
              Inl e \<Rightarrow> (Inl e, w2)
            | Inr response_data \<Rightarrow> (interpret_reply lib cmd response_data, w2)))"

text \<open>\<open>send_command\<close>: every exception of the body becomes \<open>False\<close>.\<close>

definition send_command ::
  "pylib \<Rightarrow> world \<Rightarrow> string \<Rightarrow> int \<Rightarrow> string \<Rightarrow> real option \<Rightarrow> pyval
     \<Rightarrow> pyval \<times> world" where
  "send_command lib w device_ip device_port cmd ts file_id =
     (case send_command_try lib w device_ip device_port cmd ts file_id of
        (Inl e, w') \<Rightarrow> (PBool False, w')
      | (Inr v, w') \<Rightarrow> (v, w'))"

text \<open>
  The threads of a broadcast are started in the order of the registry and run in an order
  of their own. \<open>run_order\<close> places each thread among the threads started after it, at
  the position that the schedule gives: every order of the threads comes from some
  schedule, and the empty schedule keeps the order of the registry.
\<close>

fun run_order :: "nat list \<Rightarrow> 'a list \<Rightarrow> 'a list" where
  "run_order ps [] = []"
| "run_order ps (x # xs) =
     (let later = run_order (tl ps) xs;
          i = (case ps of [] \<Rightarrow> 0 | p # _ \<Rightarrow> p mod Suc (length later))
      in take i later @ x # drop i later)"

text \<open>\<open>send_command_to_all\<close>, lines 234 to 248: one \<open>send_command\<close> per thread, each
  storing its result under the device's name. Each thread's \<open>send_command\<close> is run as a
  whole, the threads in the order given.\<close>

fun send_and_store_result ::
  "pylib \<Rightarrow> string \<Rightarrow> real \<Rightarrow> (string \<times> device) list \<Rightarrow> (string \<times> pyval) list \<Rightarrow> world
     \<Rightarrow> (string \<times> pyval) list \<times> world" where
  "send_and_store_result lib cmd sync_timestamp [] results w = (results, w)"
| "send_and_store_result lib cmd sync_timestamp ((name, d) # ds) results w =
     (case send_command lib w (ip d) (port d) cmd (Some sync_timestamp) PNone of
        (result, w') \<Rightarrow>
          send_and_store_result lib cmd sync_timestamp ds
            (AList.update name result results) w')"

definition send_command_to_all ::
  "pylib \<Rightarrow> world \<Rightarrow> (string \<times> device) list \<Rightarrow> string \<Rightarrow> real option \<Rightarrow> real
     \<Rightarrow> (string \<times> pyval) list option \<times> world" where
  "send_command_to_all lib w discovered_devices cmd ts sync_delay =
     (if discovered_devices = [] then (None, w)
      else
        (let (sync_timestamp, w1) =
               (if cmd = ''START_RECORDING'' \<and> ts = None then
                  (case time_time w of (t, w') \<Rightarrow> (t + sync_delay, w'))
                else or_time ts w)
         in case send_and_store_result lib cmd sync_timestamp
                   (run_order (schedule w) discovered_devices) [] w1 of
              (results, w2) \<Rightarrow>
                if cmd = ''STOP_RECORDING'' then
                  (Some (filter (\<lambda>(name, result). is_str result) results), w2)
                else (Some results, w2)))"

text \<open>\<open>download_all_files\<close>, lines 343 to 349: one \<open>GET_VIDEO\<close> per identifier whose device
  is registered; every truthy result is kept.\<close>

fun download_each ::
  "pylib \<Rightarrow> (string \<times> device) list \<Rightarrow> (string \<times> pyval) list \<Rightarrow> pyval list \<Rightarrow> world
     \<Rightarrow> pyval list \<times> world" where
  "download_each lib devs [] downloaded_files w = (downloaded_files, w)"
| "download_each lib devs ((device_name, file_id) # rest) downloaded_files w =
     (case map_of devs device_name of
        None \<Rightarrow> download_each lib devs rest downloaded_files w
      | Some d \<Rightarrow>
          (case send_command lib w (ip d) (port d) ''GET_VIDEO'' None file_id of
             (file_path, w') \<Rightarrow>
               download_each lib devs rest
                 (if truthy file_path then downloaded_files @ [file_path]
                  else downloaded_files) w'))"

record controller =
  discovered_devices :: "(string \<times> device) list"
  last_downloaded_files :: "pyval list"

definition download_all_files ::
  "pylib \<Rightarrow> controller \<Rightarrow> world \<Rightarrow> (string \<times> pyval) list
     \<Rightarrow> pyval list \<times> controller \<times> world" where
  "download_all_files lib ctl w file_ids =
     (if file_ids = [] then ([], ctl, w)
      else
        (case download_each lib (discovered_devices ctl) file_ids [] w of
           (downloaded_files, w') \<Rightarrow>
             (downloaded_files,
              if downloaded_files \<noteq> []
              then ctl\<lparr>last_downloaded_files := downloaded_files\<rparr> else ctl,
              w')))"

section \<open>S3Controller\<close>

text \<open>The client is present unless its construction failed. Content type and metadata of
  an upload are not part of the model: an object is its key and its body.\<close>

record s3_controller =
  bucket_name :: string
  region :: string
  s3_client :: bool

text \<open>\<open>generate_session_folder\<close>: the folder name made from \<open>datetime.now()\<close>.\<close>

definition generate_session_folder :: "world \<Rightarrow> string" where
  "generate_session_folder w = session_stamp w"

definition upload_file :: "s3_controller \<Rightarrow> world \<Rightarrow> string \<Rightarrow> string \<Rightarrow> bool \<times> world" where
  "upload_file s3 w local_path s3_key =
     (if \<not> s3_client s3 then (False, w)
      else
        (case files w local_path of
           None \<Rightarrow> (False, w)
         | Some body \<Rightarrow>
             if put_fails w s3_key then (False, w)
             else (True, w\<lparr>bucket := bucket w @ [(s3_key, body)]\<rparr>)))"

record batch_result =
  success :: bool
  uploaded_files :: "string list"
  failed_files :: "string list"
  folder :: "string option"

text \<open>\<open>upload_batch\<close>, lines 167 to 181.\<close>

fun upload_each ::
  "s3_controller \<Rightarrow> pylib \<Rightarrow> string \<Rightarrow> string list \<Rightarrow> string list \<Rightarrow> string list \<Rightarrow> world
     \<Rightarrow> (string list \<times> string list) \<times> world" where
  "upload_each s3 lib session [] uploaded failed w = ((uploaded, failed), w)"
| "upload_each s3 lib session (file_path # rest) uploaded failed w =
     (case files w file_path of
        None \<Rightarrow> upload_each s3 lib session rest uploaded (failed @ [file_path]) w
      | Some body \<Rightarrow>
          (case upload_file s3 w file_path (session @ path_name lib file_path) of
             (ok, w') \<Rightarrow>
               if ok then upload_each s3 lib session rest (uploaded @ [file_path]) failed w'
               else upload_each s3 lib session rest uploaded (failed @ [file_path]) w'))"

definition upload_batch ::
  "s3_controller \<Rightarrow> pylib \<Rightarrow> world \<Rightarrow> string list \<Rightarrow> string option
     \<Rightarrow> batch_result \<times> world" where
  "upload_batch s3 lib w file_paths custom_folder =
     (if file_paths = [] then
        (\<lparr>success = True, uploaded_files = [], failed_files = [], folder = None\<rparr>, w)
      else
        (let session = (case custom_folder of
                          None \<Rightarrow> generate_session_folder w
                        | Some c \<Rightarrow> if c \<noteq> [] then c else generate_session_folder w)
         in case upload_each s3 lib session file_paths [] [] w of
              ((uploaded, failed), w') \<Rightarrow>
                (\<lparr>success = (length failed = 0), uploaded_files = uploaded,
                  failed_files = failed, folder = Some session\<rparr>, w')))"

record delete_result =
  deletion_success :: bool
  deleted_files :: "string list"
  failed_deletions :: "string list"

text \<open>\<open>delete_local_files\<close>, lines 210 to 221: a file that \<open>os.remove\<close> cannot remove
  stays and is reported; a file that is already missing is neither deleted nor failed.\<close>

fun delete_each ::
  "string list \<Rightarrow> string list \<Rightarrow> string list \<Rightarrow> world
     \<Rightarrow> (string list \<times> string list) \<times> world" where
  "delete_each [] deleted failed w = ((deleted, failed), w)"
| "delete_each (file_path # rest) deleted failed w =
     (if files w file_path \<noteq> None then
        (if undeletable w file_path then
           delete_each rest deleted (failed @ [file_path]) w
         else
           delete_each rest (deleted @ [file_path]) failed
             (w\<lparr>files := (files w)(file_path := None)\<rparr>))
      else delete_each rest deleted failed w)"

definition delete_local_files :: "world \<Rightarrow> string list \<Rightarrow> delete_result \<times> world" where
  "delete_local_files w file_paths =
     (case delete_each file_paths [] [] w of
        ((deleted, failed), w') \<Rightarrow>
          (\<lparr>deletion_success = (length failed = 0), deleted_files = deleted,
            failed_deletions = failed\<rparr>, w'))"

text \<open>The dictionary that \<open>upload_and_cleanup\<close> returns: \<open>deleted_count\<close> is a key of the
  first branch only, \<open>failed_count\<close> of the second.\<close>

record cleanup_report =
  upload_success :: bool
  cleanup_success :: bool
  session_folder :: "string option"
  total_files :: nat
  uploaded_count :: nat
  deleted_count :: "nat option"
  failed_count :: "nat option"

text \<open>\<open>upload_and_cleanup\<close>. The result of an empty batch has no \<open>session_folder\<close> key,
  and reading it raises.\<close>

definition upload_and_cleanup ::
  "s3_controller \<Rightarrow> pylib \<Rightarrow> world \<Rightarrow> string list \<Rightarrow> string option
     \<Rightarrow> (exn + cleanup_report) \<times> world" where
  "upload_and_cleanup s3 lib w file_paths custom_folder =
     (case upload_batch s3 lib w file_paths custom_folder of
        (upload_result, w1) \<Rightarrow>
          if success upload_result then
            (case delete_local_files w1 (uploaded_files upload_result) of
               (cleanup_result, w2) \<Rightarrow>
                 (case folder upload_result of
                    None \<Rightarrow> (Inl KeyError, w2)
                  | Some f \<Rightarrow>
                      (Inr \<lparr>upload_success = True,
                            cleanup_success = deletion_success cleanup_result,
                            session_folder = Some f,
                            total_files = length file_paths,
                            uploaded_count = length (uploaded_files upload_result),
                            deleted_count = Some (length (deleted_files cleanup_result)),
                            failed_count = None\<rparr>, w2)))
          else
            (Inr \<lparr>upload_success = False,
                  cleanup_success = False,
                  session_folder = folder upload_result,
                  total_files = length file_paths,
                  uploaded_count = length (uploaded_files upload_result),
                  deleted_count = None,
                  failed_count = Some (length (failed_files upload_result))\<rparr>, w1))"

section \<open>MultiCamApp\<close>

record app =
  ctl :: controller
  s3_controller :: s3_controller
  recording_in_progress :: bool

text \<open>The second component of what \<open>start_recording\<close> and \<open>stop_recording\<close> return, and
  the first: one constructor for each message, with the values the message shows.\<close>

datatype status = Ready | Recording

datatype outcome =
    NoDevicesAvailable
  | AlreadyInProgress
  | Started nat
  | FailedToStart
  | NoRecordingInProgress
  | UploadedAndCleaned nat "string option"
  | UploadedLocalRemain nat "string option"
  | UploadFailed nat nat
  | DownloadFailed nat nat
  | NoFilesReturned nat
  | ErrorStopping exn

text \<open>\<open>start_recording\<close>. The broadcast raises nothing, so the \<open>except\<close> branch is never
  taken and has no counterpart here.\<close>

definition start_recording ::
  "pylib \<Rightarrow> app \<Rightarrow> world \<Rightarrow> (outcome \<times> status) \<times> app \<times> world" where
  "start_recording lib a w =
     (if discovered_devices (ctl a) = [] then ((NoDevicesAvailable, Ready), a, w)
      else if recording_in_progress a then ((AlreadyInProgress, Recording), a, w)
      else
        (let a1 = a\<lparr>recording_in_progress := True\<rparr>;
             device_count = length (discovered_devices (ctl a1))
         in case send_command_to_all lib w (discovered_devices (ctl a1))
                   ''START_RECORDING'' None 3.0 of
              (result, w') \<Rightarrow>
                if result \<noteq> None \<and> result \<noteq> Some [] then
                  ((Started device_count, Recording), a1, w')
                else ((FailedToStart, Ready), a1\<lparr>recording_in_progress := False\<rparr>, w')))"

text \<open>The paths among the downloaded results.\<close>

fun paths_of :: "pyval list \<Rightarrow> string list" where
  "paths_of [] = []"
| "paths_of (PStr p # vs) = p # paths_of vs"
| "paths_of (v # vs) = paths_of vs"

text \<open>\<open>stop_recording\<close>, lines 149 to 179: retrieval, upload and the message.\<close>

definition retrieve_and_upload ::
  "pylib \<Rightarrow> app \<Rightarrow> world \<Rightarrow> nat \<Rightarrow> (string \<times> pyval) list
     \<Rightarrow> (outcome \<times> status) \<times> app \<times> world" where
  "retrieve_and_upload lib a w device_count file_ids =
     (let file_count = length file_ids
      in case download_all_files lib (ctl a) w file_ids of
           (downloaded_files, ctl', w1) \<Rightarrow>
             if downloaded_files \<noteq> [] then
               (case upload_and_cleanup (s3_controller a) lib w1
                       (paths_of downloaded_files) None of
                  (Inl e, w2) \<Rightarrow>
                    ((ErrorStopping e, Ready),
                     a\<lparr>ctl := ctl', recording_in_progress := False\<rparr>, w2)
                | (Inr upload_result, w2) \<Rightarrow>
                    ((if upload_success upload_result then
                        (if cleanup_success upload_result then
                           UploadedAndCleaned (uploaded_count upload_result)
                             (session_folder upload_result)
                         else
                           UploadedLocalRemain (uploaded_count upload_result)
                             (session_folder upload_result))
                      else
                        UploadFailed (length downloaded_files)
                          (case failed_count upload_result of None \<Rightarrow> 0 | Some n \<Rightarrow> n),
                      Ready),
                     a\<lparr>ctl := ctl'\<rparr>, w2))
             else ((DownloadFailed device_count file_count, Ready), a\<lparr>ctl := ctl'\<rparr>, w1))"

text \<open>\<open>stop_recording\<close>.\<close>

definition stop_recording ::
  "pylib \<Rightarrow> app \<Rightarrow> world \<Rightarrow> (outcome \<times> status) \<times> app \<times> world" where
  "stop_recording lib a w =
     (if \<not> recording_in_progress a then ((NoRecordingInProgress, Ready), a, w)
      else
        (let device_count = length (discovered_devices (ctl a))
         in case send_command_to_all lib w (discovered_devices (ctl a))
                   ''STOP_RECORDING'' None 3.0 of
              (file_ids, w1) \<Rightarrow>
                (let a1 = a\<lparr>recording_in_progress := False\<rparr>
                 in case file_ids of
                      None \<Rightarrow> ((NoFilesReturned device_count, Ready), a1, w1)
                    | Some fs \<Rightarrow>
                        if fs \<noteq> [] then retrieve_and_upload lib a1 w1 device_count fs
                        else ((NoFilesReturned device_count, Ready), a1, w1))))"

section \<open>An example installation\<close>

text \<open>
  Three registered devices: a camera that answers every command, a device whose port is
  closed, and a device that accepts the connection and then stays silent. The decoder
  knows the replies of the camera: \<^verbatim>\<open>{"fileId":"rec1","error":"disk full"}\<close> to
  \<open>STOP_RECORDING\<close>, the metadata block \<^verbatim>\<open>{"fileName":"a.mov","fileSize":1000}\<close>,
  the listing \<^verbatim>\<open>{"files":[]}\<close>, which arrives in two parts, and
  \<^verbatim>\<open>{"status":"ok"}\<close>. To \<open>GET_VIDEO\<close> the camera sends the length of the metadata
  block, the block, and 500 of the 1000 bytes it announced; then it closes the connection.
  A fourth device, not in the registry, answers like the camera does to \<open>STOP_RECORDING\<close>,
  with the reply cut in two deliveries after its twentieth byte.
\<close>

definition stop_reply :: bytes where
  "stop_reply = [123, 34, 102, 105, 108, 101, 73, 100, 34, 58, 34, 114, 101, 99, 49, 34, 44,
     34, 101, 114, 114, 111, 114, 34, 58, 34, 100, 105, 115, 107, 32, 102, 117, 108, 108,
     34, 125]"

definition file_header :: bytes where
  "file_header = [123, 34, 102, 105, 108, 101, 78, 97, 109, 101, 34, 58, 34, 97, 46, 109,
     111, 118, 34, 44, 34, 102, 105, 108, 101, 83, 105, 122, 101, 34, 58, 49, 48, 48, 48,
     125]"

definition listing_part1 :: bytes where
  "listing_part1 = [123, 34, 102, 105, 108, 101, 115, 34, 58]"

definition listing_part2 :: bytes where
  "listing_part2 = [91, 93, 125]"

definition ok_reply :: bytes where
  "ok_reply = [123, 34, 115, 116, 97, 116, 117, 115, 34, 58, 34, 111, 107, 34, 125]"

definition example_lib :: pylib where
  "example_lib =
     \<lparr>json_decode = map_of
        [(stop_reply, PDict [(''fileId'', PStr ''rec1''), (''error'', PStr ''disk full'')]),
         (file_header, PDict [(''fileName'', PStr ''a.mov''), (''fileSize'', PInt 1000)]),
         (listing_part1 @ listing_part2, PDict [(''files'', PList [])]),
         (ok_reply, PDict [(''status'', PStr ''ok'')])],
      str_of = (\<lambda>v. case v of PStr s \<Rightarrow> s | _ \<Rightarrow> []),
      path_name = (\<lambda>p. rev (takeWhile (\<lambda>c. c \<noteq> CHR ''/'') (rev p)))\<rparr>"

definition camera_reply :: "message \<Rightarrow> event list" where
  "camera_reply m =
     (if command m = ''STOP_RECORDING'' then [Data stop_reply]
      else if command m = ''GET_VIDEO'' then
        [Data [0, 0, 0, 36], Data file_header, Data (replicate 500 0)]
      else if command m = ''START_RECORDING'' then [Data ok_reply]
      else [Data listing_part1, Data listing_part2])"

definition example_peers :: "string \<Rightarrow> int \<Rightarrow> peer" where
  "example_peers i p =
     (if i = ''10.0.0.2'' then \<lparr>refuses = True, send_fails = False, reply = (\<lambda>m. [])\<rparr>
      else if i = ''10.0.0.3'' then
        \<lparr>refuses = False, send_fails = False, reply = (\<lambda>m. [Timeout])\<rparr>
      else if i = ''10.0.0.4'' then
        \<lparr>refuses = False, send_fails = False,
         reply = (\<lambda>m. [Data (take 20 stop_reply), Data (drop 20 stop_reply)])\<rparr>
      else \<lparr>refuses = False, send_fails = False, reply = camera_reply\<rparr>)"

definition example_world :: world where
  "example_world =
     \<lparr>now = (\<lambda>n. 1700000000 + real n), ticks = 0, peers = example_peers, conns = [],
      home = ''/home/cam'', files = Map.empty, unwritable = (\<lambda>p. False),
      undeletable = (\<lambda>p. False), session_stamp = ''2024-05-01/10-00-00/'',
      put_fails = (\<lambda>k. False), bucket = [], schedule = []\<rparr>"

definition example_devices :: "(string \<times> device) list" where
  "example_devices =
     [(''cam1'', \<lparr>ip = ''10.0.0.1'', port = 8080\<rparr>),
      (''cam2'', \<lparr>ip = ''10.0.0.2'', port = 8080\<rparr>),
      (''cam3'', \<lparr>ip = ''10.0.0.3'', port = 8080\<rparr>)]"

definition example_app :: "(string \<times> device) list \<Rightarrow> bool \<Rightarrow> app" where
  "example_app devs in_progress =
     \<lparr>ctl = \<lparr>discovered_devices = devs, last_downloaded_files = []\<rparr>,
      s3_controller = \<lparr>bucket_name = ''recordings'', region = ''us-east-1'', s3_client = True\<rparr>,
      recording_in_progress = in_progress\<rparr>"

section \<open>What a command leaves of the environment\<close>


lemma or_time_world:
  "snd (or_time ts w) = (if ts = None \<or> ts = Some 0 then w\<lparr>ticks := Suc (ticks w)\<rparr> else w)"
  by (cases ts) (simp_all add: or_time_def time_time_def)

lemma build_message_world:
  "snd (build_message w cmd ts fid) =
     (if ts = None \<or> ts = Some 0 then w\<lparr>ticks := Suc (ticks w)\<rparr> else w)"
proof -
  have "snd (build_message w cmd ts fid) = snd (or_time ts w)"
    by (simp add: build_message_def case_prod_beta)
  then show ?thesis
    by (simp only: or_time_world)
qed

lemma write_download_world:
  "\<exists>f. snd (write_download w sock p n) = w\<lparr>files := f\<rparr>"
proof (cases "unwritable w p")
  case True
  then have "snd (write_download w sock p n) = w\<lparr>files := files w\<rparr>"
    by (simp add: write_download_def)
  then show ?thesis by (rule exI [of _ "files w"])
next
  case False
  obtain e written where "recv_file n 0 sock [] = (e, written)"
    by (cases "recv_file n 0 sock []")
  then have "snd (write_download w sock p n) = w\<lparr>files := (files w)(p \<mapsto> written)\<rparr>"
    using False by (cases e) (simp_all add: write_download_def)
  then show ?thesis by (rule exI [of _ "(files w)(p \<mapsto> written)"])
qed

lemma handle_file_download_try_world:
  "\<exists>f. snd (handle_file_download_try lib w sock dip fid) = w\<lparr>files := f\<rparr>"
proof -
  have same: "\<exists>f. w = w\<lparr>files := f\<rparr>"
    by (rule exI [of _ "files w"]) simp
  show ?thesis
    using same write_download_world
    by (simp add: handle_file_download_try_def split: prod.splits sum.splits)
qed

lemma handle_file_download_world:
  "\<exists>f. snd (handle_file_download lib w sock dip fid) = w\<lparr>files := f\<rparr>"
proof -
  have "snd (handle_file_download lib w sock dip fid) =
      snd (handle_file_download_try lib w sock dip fid)"
    by (simp add: handle_file_download_def split: prod.splits sum.splits)
  then show ?thesis
    by (simp only: handle_file_download_try_world)
qed

lemma send_command_snd:
  "snd (send_command lib w dip dport cmd ts fid) =
     snd (send_command_try lib w dip dport cmd ts fid)"
  by (simp add: send_command_def split: prod.splits sum.splits)

lemma send_command_world:
  "\<exists>f. snd (send_command lib w dip dport cmd ts fid) =
     (snd (build_message w cmd ts fid))
       \<lparr>conns := conns w @ [(dip, dport, fst (build_message w cmd ts fid))], files := f\<rparr>"
proof -
  obtain msg w1 where bm: "build_message w cmd ts fid = (msg, w1)"
    by (cases "build_message w cmd ts fid")
  have c1: "conns w1 = conns w"
    using build_message_world [of w cmd ts fid] bm by (simp split: if_splits)
  let ?w2 = "w1\<lparr>conns := conns w @ [(dip, dport, msg)]\<rparr>"
  let ?p = "peers ?w2 dip dport"
  let ?r = "snd (send_command_try lib w dip dport cmd ts fid)"
  have "?r = ?w2 \<or> ?r = snd (handle_file_download lib ?w2 (reply ?p msg) dip fid)"
    by (simp add: send_command_try_def bm c1 Let_def split: prod.splits sum.splits)
  moreover have "\<exists>f. ?w2 = ?w2\<lparr>files := f\<rparr>"
    by (rule exI [of _ "files ?w2"]) simp
  moreover have "\<exists>f. snd (handle_file_download lib ?w2 (reply ?p msg) dip fid) = ?w2\<lparr>files := f\<rparr>"
    by (rule handle_file_download_world)
  ultimately have "\<exists>f. ?r = ?w2\<lparr>files := f\<rparr>"
    by metis
  then show ?thesis
    by (simp add: send_command_snd bm)
qed


lemma send_command_conns:
  "conns (snd (send_command lib w dip dport cmd ts fid)) =
     conns w @ [(dip, dport, fst (build_message w cmd ts fid))]"
proof -
  obtain f where "snd (send_command lib w dip dport cmd ts fid) =
     (snd (build_message w cmd ts fid))
       \<lparr>conns := conns w @ [(dip, dport, fst (build_message w cmd ts fid))], files := f\<rparr>"
    using send_command_world by blast
  then show ?thesis by simp
qed

lemma send_command_peers:
  "peers (snd (send_command lib w dip dport cmd ts fid)) = peers w"
proof -
  obtain f where "snd (send_command lib w dip dport cmd ts fid) =
     (snd (build_message w cmd ts fid))
       \<lparr>conns := conns w @ [(dip, dport, fst (build_message w cmd ts fid))], files := f\<rparr>"
    using send_command_world by blast
  then show ?thesis by (simp add: build_message_world)
qed

lemma send_command_clock:
  "now (snd (send_command lib w dip dport cmd ts fid)) = now w"
  "ticks (snd (send_command lib w dip dport cmd ts fid)) =
     (if ts = None \<or> ts = Some 0 then Suc (ticks w) else ticks w)"
proof -
  obtain f where "snd (send_command lib w dip dport cmd ts fid) =
     (snd (build_message w cmd ts fid))
       \<lparr>conns := conns w @ [(dip, dport, fst (build_message w cmd ts fid))], files := f\<rparr>"
    using send_command_world by blast
  then show "now (snd (send_command lib w dip dport cmd ts fid)) = now w"
    and "ticks (snd (send_command lib w dip dport cmd ts fid)) =
     (if ts = None \<or> ts = Some 0 then Suc (ticks w) else ticks w)"
    by (simp_all add: build_message_world)
qed

lemma build_message_nonzero:
  "t \<noteq> 0 \<Longrightarrow> build_message w cmd (Some t) PNone =
     (\<lparr>command = cmd, timestamp = t, deviceId = ''controller'', fileId = None\<rparr>, w)"
  by (simp add: build_message_def or_time_def)

lemma send_and_store_result_conns:
  "t \<noteq> 0 \<Longrightarrow>
   conns (snd (send_and_store_result lib cmd t ds results w)) =
     conns w @ map (\<lambda>(name, d). (ip d, port d,
        \<lparr>command = cmd, timestamp = t, deviceId = ''controller'', fileId = None\<rparr>)) ds"
proof (induction ds arbitrary: results w)
  case Nil
  then show ?case by simp
next
  case (Cons nd ds)
  obtain name d where nd: "nd = (name, d)" by (cases nd)
  obtain result w' where sc: "send_command lib w (ip d) (port d) cmd (Some t) PNone = (result, w')"
    by (cases "send_command lib w (ip d) (port d) cmd (Some t) PNone")
  have "conns w' = conns w @ [(ip d, port d,
        \<lparr>command = cmd, timestamp = t, deviceId = ''controller'', fileId = None\<rparr>)]"
    using send_command_conns [of lib w "ip d" "port d" cmd "Some t" PNone] sc Cons.prems
    by (simp add: build_message_nonzero)
  then show ?case
    using Cons.IH [of "AList.update name result results" w'] Cons.prems
    by (simp add: nd sc)
qed

lemma send_and_store_result_ticks:
  "t \<noteq> 0 \<Longrightarrow> ticks (snd (send_and_store_result lib cmd t ds results w)) = ticks w"
proof (induction ds arbitrary: results w)
  case Nil
  then show ?case by simp
next
  case (Cons nd ds)
  obtain name d where nd: "nd = (name, d)" by (cases nd)
  obtain result w' where sc: "send_command lib w (ip d) (port d) cmd (Some t) PNone = (result, w')"
    by (cases "send_command lib w (ip d) (port d) cmd (Some t) PNone")
  have "ticks w' = ticks w"
    using send_command_clock(2) [of lib w "ip d" "port d" cmd "Some t" PNone] sc Cons.prems
    by simp
  then show ?case
    using Cons.IH [where results = "AList.update name result results" and w = w'] Cons.prems
    by (simp add: nd sc)
qed

lemma send_and_store_result_keys:
  "fst ` set (fst (send_and_store_result lib cmd t ds results w)) =
     fst ` set results \<union> fst ` set ds"
proof (induction ds arbitrary: results w)
  case Nil
  then show ?case by simp
next
  case (Cons nd ds)
  obtain name d where nd: "nd = (name, d)" by (cases nd)
  obtain result w' where sc: "send_command lib w (ip d) (port d) cmd (Some t) PNone = (result, w')"
    by (cases "send_command lib w (ip d) (port d) cmd (Some t) PNone")
  show ?case
    using Cons.IH [of "AList.update name result results" w']
    by (simp add: nd sc dom_update)
qed

lemma send_and_store_result_peers:
  "peers (snd (send_and_store_result lib cmd t ds results w)) = peers w"
proof (induction ds arbitrary: results w)
  case Nil
  then show ?case by simp
next
  case (Cons nd ds)
  obtain name d where nd: "nd = (name, d)" by (cases nd)
  obtain result w' where sc: "send_command lib w (ip d) (port d) cmd (Some t) PNone = (result, w')"
    by (cases "send_command lib w (ip d) (port d) cmd (Some t) PNone")
  then have "peers w' = peers w"
    using send_command_peers [of lib w "ip d" "port d" cmd "Some t" PNone] by simp
  then show ?case
    using Cons.IH [of "AList.update name result results" w']
    by (simp add: nd sc)
qed

lemma send_and_store_result_other:
  "name \<notin> fst ` set ds \<Longrightarrow>
   map_of (fst (send_and_store_result lib cmd t ds results w)) name = map_of results name"
proof (induction ds arbitrary: results w)
  case Nil
  then show ?case by simp
next
  case (Cons nd ds)
  obtain n0 d where nd: "nd = (n0, d)" by (cases nd)
  obtain result w' where sc: "send_command lib w (ip d) (port d) cmd (Some t) PNone = (result, w')"
    by (cases "send_command lib w (ip d) (port d) cmd (Some t) PNone")
  have "name \<noteq> n0" and "name \<notin> fst ` set ds"
    using Cons.prems nd by auto
  then show ?case
    using Cons.IH [where results = "AList.update n0 result results" and w = w']
    by (simp add: nd sc update_conv')
qed

lemma send_and_store_result_entry:
  "distinct (map fst ds) \<Longrightarrow> (name, d) \<in> set ds \<Longrightarrow>
   \<exists>w'. peers w' = peers w \<and>
     map_of (fst (send_and_store_result lib cmd t ds results w)) name =
       Some (fst (send_command lib w' (ip d) (port d) cmd (Some t) PNone))"
proof (induction ds arbitrary: results w)
  case Nil
  then show ?case by simp
next
  case (Cons nd ds)
  obtain n0 d0 where nd: "nd = (n0, d0)" by (cases nd)
  obtain result w' where sc: "send_command lib w (ip d0) (port d0) cmd (Some t) PNone = (result, w')"
    by (cases "send_command lib w (ip d0) (port d0) cmd (Some t) PNone")
  have pw': "peers w' = peers w"
    using send_command_peers [of lib w "ip d0" "port d0" cmd "Some t" PNone] sc by simp
  show ?case
  proof (cases "(name, d) = (n0, d0)")
    case True
    then have "name \<notin> fst ` set ds"
      using Cons.prems(1) nd by auto
    then have "map_of (fst (send_and_store_result lib cmd t ds
                 (AList.update n0 result results) w')) name = Some result"
      using True by (simp add: send_and_store_result_other update_conv')
    then show ?thesis
      using True sc by (intro exI [of _ w]) (simp add: nd)
  next
    case False
    then have "(name, d) \<in> set ds" and "distinct (map fst ds)"
      using Cons.prems nd by auto
    then obtain w'' where "peers w'' = peers w'"
      and "map_of (fst (send_and_store_result lib cmd t ds
             (AList.update n0 result results) w')) name =
           Some (fst (send_command lib w'' (ip d) (port d) cmd (Some t) PNone))"
      using Cons.IH [where results = "AList.update n0 result results" and w = w'] by blast
    then show ?thesis
      using pw' by (intro exI [of _ w'']) (simp add: nd sc)
  qed
qed

lemma send_command_refused:
  assumes "refuses (peers w dip dport) \<or> send_fails (peers w dip dport)"
  shows "send_command_try lib w dip dport cmd ts fid =
           (Inl (if refuses (peers w dip dport) then ConnectionError else OSError),
            snd (send_command_try lib w dip dport cmd ts fid))"
    and "fst (send_command lib w dip dport cmd ts fid) = PBool False"
proof -
  obtain msg w1 where bm: "build_message w cmd ts fid = (msg, w1)"
    by (cases "build_message w cmd ts fid")
  then have p1: "peers w1 = peers w"
    using build_message_world [of w cmd ts fid] by (simp split: if_splits)
  show t: "send_command_try lib w dip dport cmd ts fid =
           (Inl (if refuses (peers w dip dport) then ConnectionError else OSError),
            snd (send_command_try lib w dip dport cmd ts fid))"
    using assms by (auto simp add: send_command_try_def bm p1 Let_def)
  show "fst (send_command lib w dip dport cmd ts fid) = PBool False"
    by (subst send_command_def, subst t) simp
qed

lemma sync_timestamp_env:
  "peers (snd (if cmd = ''START_RECORDING'' \<and> ts = None
               then (case time_time w of (t, w') \<Rightarrow> (t + sync_delay, w'))
               else or_time ts w)) = peers w"
  by (simp add: time_time_def or_time_world)

lemma run_order_mset:
  "mset (run_order ps xs) = mset xs"
proof (induction xs arbitrary: ps)
  case Nil
  then show ?case by simp
next
  case (Cons x xs)
  let ?later = "run_order (tl ps) xs"
  have "mset (take i ?later @ x # drop i ?later) = add_mset x (mset ?later)" for i
  proof -
    have "mset (take i ?later) + mset (drop i ?later) = mset (take i ?later @ drop i ?later)"
      by (simp only: mset_append)
    also have "\<dots> = mset ?later"
      by (simp only: append_take_drop_id)
    finally show ?thesis
      by simp
  qed
  then show ?case
    using Cons.IH [of "tl ps"] by (simp add: Let_def)
qed

lemma run_order_complete:
  "mset ys = mset xs \<Longrightarrow> \<exists>ps. run_order ps xs = ys"
proof (induction xs arbitrary: ys)
  case Nil
  then show ?case by simp
next
  case (Cons x xs)
  have "x \<in> set ys"
    using Cons.prems by (metis list.set_intros(1) mset_eq_setD)
  then obtain as bs where ys: "ys = as @ x # bs"
    by (meson split_list)
  then have "mset (as @ bs) = mset xs"
    using Cons.prems by simp
  then obtain ps where ps: "run_order ps xs = as @ bs"
    using Cons.IH by blast
  have "run_order (length as # ps) (x # xs) = ys"
    by (simp add: ps ys Let_def)
  then show ?case ..
qed

lemma run_order_set:
  "set (run_order ps xs) = set xs"
  using run_order_mset [of ps xs] by (rule mset_eq_setD)

lemma run_order_distinct:
  "distinct (map fst (run_order ps xs)) = distinct (map fst xs)"
proof -
  have "mset (map fst (run_order ps xs)) = mset (map fst xs)"
    by (simp add: run_order_mset)
  then show ?thesis
    by (rule mset_eq_imp_distinct_iff)
qed

lemma run_order_empty_schedule:
  "run_order [] xs = xs"
  by (induction xs) simp_all

section \<open>Properties of the specification\<close>

text \<open>
  Claim C10. With an empty registry the broadcast returns \<open>None\<close>, not an empty mapping,
  for every command, and leaves the environment as it was: no clock reading, no
  connection.
\<close>

theorem empty_registry_no_broadcast:
  "send_command_to_all lib w [] cmd ts sync_delay = (None, w)"
  by (simp add: send_command_to_all_def)

text \<open>
  Claim C9. A timestamp of zero is replaced in the transmitted envelope by the reading of
  the clock, and an empty file identifier is left out of the envelope, for every command
  and every device address.
\<close>

theorem falsy_timestamp_and_file_id:
  "timestamp (snd (snd (last (conns (snd
       (send_command lib w dip dport cmd (Some 0) fid)))))) = now w (ticks w)
   \<and> fileId (snd (snd (last (conns (snd
       (send_command lib w dip dport cmd ts (PStr []))))))) = None"
  by (simp add: send_command_conns build_message_def or_time_def time_time_def
      split: prod.splits option.splits)

text \<open>
  Claim C1. With a clock after the epoch and a delay that is not negative, a broadcast of
  \<open>START_RECORDING\<close> without a timestamp over a non-empty registry reads the clock once,
  before the dispatch, and makes exactly one connection per registered device, in the
  order in which the threads run; every envelope carries the same timestamp, that one
  reading plus the delay.
\<close>

theorem start_broadcast_shared_timestamp:
  assumes "devs \<noteq> []" and "0 < now w (ticks w)" and "0 \<le> sync_delay"
  shows "\<exists>order. mset order = mset devs
     \<and> conns (snd (send_command_to_all lib w devs ''START_RECORDING'' None sync_delay)) =
         conns w @ map (\<lambda>(name, d). (ip d, port d,
           \<lparr>command = ''START_RECORDING'', timestamp = now w (ticks w) + sync_delay,
            deviceId = ''controller'', fileId = None\<rparr>)) order
     \<and> ticks (snd (send_command_to_all lib w devs ''START_RECORDING'' None sync_delay)) =
         Suc (ticks w)"
proof -
  let ?w1 = "w\<lparr>ticks := Suc (ticks w)\<rparr>"
  let ?t = "now w (ticks w) + sync_delay"
  let ?order = "run_order (schedule w) devs"
  have t: "?t \<noteq> 0"
    using assms(2,3) by simp
  obtain results w2 where
    s: "send_and_store_result lib ''START_RECORDING'' ?t ?order [] ?w1 = (results, w2)"
    by (cases "send_and_store_result lib ''START_RECORDING'' ?t ?order [] ?w1")
  have c: "conns w2 = conns ?w1 @ map (\<lambda>(name, d). (ip d, port d,
        \<lparr>command = ''START_RECORDING'', timestamp = ?t,
         deviceId = ''controller'', fileId = None\<rparr>)) ?order"
    using send_and_store_result_conns [OF t, of lib "''START_RECORDING''" ?order "[]" ?w1] s
    by simp
  have k: "ticks w2 = Suc (ticks w)"
    using send_and_store_result_ticks [OF t, of lib "''START_RECORDING''" ?order "[]" ?w1] s
    by simp
  have "snd (send_command_to_all lib w devs ''START_RECORDING'' None sync_delay) = w2"
    using assms(1) by (simp add: send_command_to_all_def time_time_def s)
  then show ?thesis
    using c k run_order_mset [of "schedule w" devs]
    by (intro exI [of _ ?order]) simp
qed

text \<open>The example installation, with the delay of three seconds that the application uses:
  three connections, each with the clock reading plus three.\<close>

theorem start_broadcast_shared_timestamp_witness:
  "example_devices \<noteq> [] \<and> 0 < now example_world (ticks example_world) \<and> (0::real) \<le> 3
   \<and> map (timestamp \<circ> snd \<circ> snd)
        (conns (snd (send_command_to_all example_lib example_world example_devices
           ''START_RECORDING'' None 3))) =
      [1700000003, 1700000003, 1700000003]"
proof -
  have h: "example_devices \<noteq> []" "0 < now example_world (ticks example_world)" "(0::real) \<le> 3"
    by (simp_all add: example_devices_def example_world_def)
  obtain order where o: "mset order = mset example_devices"
    and c: "conns (snd (send_command_to_all example_lib example_world example_devices
           ''START_RECORDING'' None 3)) =
         conns example_world @ map (\<lambda>(name, d). (ip d, port d,
           \<lparr>command = ''START_RECORDING'',
            timestamp = now example_world (ticks example_world) + 3,
            deviceId = ''controller'', fileId = None\<rparr>)) order"
    using start_broadcast_shared_timestamp [OF h, of example_lib] by blast
  have "length order = length example_devices"
    using o by (rule mset_eq_length)
  then have l: "length order = Suc (Suc (Suc 0))"
    by (simp add: example_devices_def)
  have "map (timestamp \<circ> snd \<circ> snd)
        (conns (snd (send_command_to_all example_lib example_world example_devices
           ''START_RECORDING'' None 3))) =
      replicate (length order) (now example_world (ticks example_world) + 3)"
    unfolding c by (simp add: example_world_def comp_def case_prod_beta map_replicate_const)
  then show ?thesis
    using h by (simp add: l) (simp add: example_world_def)
qed

text \<open>
  Claim C3, amended. For every command other than \<open>STOP_RECORDING\<close>, the mapping returned
  by a broadcast over a non-empty registry has exactly the registered names as keys, and a
  device that refused the connection or failed the send is in it with \<open>False\<close>.
\<close>

theorem broadcast_result_complete:
  assumes "devs \<noteq> []" and "distinct (map fst devs)" and "cmd \<noteq> ''STOP_RECORDING''"
  shows "\<exists>results. fst (send_command_to_all lib w devs cmd ts sync_delay) = Some results
     \<and> fst ` set results = fst ` set devs
     \<and> (\<forall>(name, d) \<in> set devs.
          refuses (peers w (ip d) (port d)) \<or> send_fails (peers w (ip d) (port d))
          \<longrightarrow> map_of results name = Some (PBool False))"
proof -
  let ?st = "if cmd = ''START_RECORDING'' \<and> ts = None
             then (case time_time w of (t, w') \<Rightarrow> (t + sync_delay, w'))
             else or_time ts w"
  obtain t w1 where st: "?st = (t, w1)"
    by (cases ?st)
  have pw1: "peers w1 = peers w"
    using sync_timestamp_env [where cmd = cmd and ts = ts and w = w and sync_delay = sync_delay]
      st by simp
  let ?order = "run_order (schedule w) devs"
  let ?results = "fst (send_and_store_result lib cmd t ?order [] w1)"
  have res: "fst (send_command_to_all lib w devs cmd ts sync_delay) = Some ?results"
    using assms(1,3) st by (simp add: send_command_to_all_def split: prod.splits)
  have keys: "fst ` set ?results = fst ` set devs"
    by (simp add: send_and_store_result_keys run_order_set)
  have dist: "distinct (map fst ?order)"
    using assms(2) by (simp only: run_order_distinct)
  have failed: "map_of ?results name = Some (PBool False)"
    if member: "(name, d) \<in> set devs"
      and bad: "refuses (peers w (ip d) (port d)) \<or> send_fails (peers w (ip d) (port d))"
    for name d
  proof -
    obtain w' where "peers w' = peers w1"
      and m: "map_of ?results name =
                Some (fst (send_command lib w' (ip d) (port d) cmd (Some t) PNone))"
      using send_and_store_result_entry [OF dist,
          where w = w1 and lib = lib and cmd = cmd and t = t and results = "[]"
            and name = name and d = d]
        member by (simp only: run_order_set) blast
    then have "refuses (peers w' (ip d) (port d)) \<or> send_fails (peers w' (ip d) (port d))"
      using bad pw1 by simp
    then show ?thesis
      using m by (simp add: send_command_refused(2))
  qed
  show ?thesis
    using res keys failed by blast
qed

text \<open>The example installation: the device with the closed port is reported as failed.\<close>

theorem broadcast_result_complete_witness:
  "example_devices \<noteq> [] \<and> distinct (map fst example_devices)
   \<and> ''DEVICE_STATUS'' \<noteq> ''STOP_RECORDING''
   \<and> refuses (peers example_world ''10.0.0.2'' 8080)
   \<and> (\<exists>results. fst (send_command_to_all example_lib example_world example_devices
          ''DEVICE_STATUS'' None 3) = Some results
        \<and> fst ` set results = {''cam1'', ''cam2'', ''cam3''}
        \<and> map_of results ''cam2'' = Some (PBool False))"
proof -
  have h1: "example_devices \<noteq> []" and h2: "distinct (map fst example_devices)"
    and h3: "''DEVICE_STATUS'' \<noteq> ''STOP_RECORDING''"
    by (simp_all add: example_devices_def)
  have r: "refuses (peers example_world ''10.0.0.2'' 8080)"
    by (simp add: example_world_def example_peers_def)
  obtain results where
    a: "fst (send_command_to_all example_lib example_world example_devices
          ''DEVICE_STATUS'' None 3) = Some results"
    and b: "fst ` set results = fst ` set example_devices"
    and c: "\<forall>(name, d) \<in> set example_devices.
          refuses (peers example_world (ip d) (port d))
            \<or> send_fails (peers example_world (ip d) (port d))
          \<longrightarrow> map_of results name = Some (PBool False)"
    using broadcast_result_complete [OF h1 h2 h3, of example_lib example_world None 3]
    by blast
  have "map_of results ''cam2'' = Some (PBool False)"
    using c r by (simp add: example_devices_def)
  moreover have "fst ` set results = {''cam1'', ''cam2'', ''cam3''}"
    using b by (simp add: example_devices_def)
  ultimately show ?thesis
    using h1 h2 h3 r a by blast
qed

text \<open>
  Claim C3 as stated fails for \<open>STOP_RECORDING\<close>, whose result keeps the string outcomes
  only: the device with the closed port is missing from the mapping.
\<close>

theorem stop_broadcast_omits_failed_counterexample:
  "fst (send_command_to_all example_lib example_world
          [(''cam2'', \<lparr>ip = ''10.0.0.2'', port = 8080\<rparr>)] ''STOP_RECORDING'' None 3) = Some []"
proof -
  have "refuses (peers w ''10.0.0.2'' 8080)" if "peers w = example_peers" for w :: world
    using that by (simp add: example_peers_def)
  then have "fst (send_command example_lib w ''10.0.0.2'' 8080 ''STOP_RECORDING'' ts PNone)
      = PBool False" if "peers w = example_peers" for w :: world and ts
    using that by (simp add: send_command_refused(2))
  then show ?thesis
    by (simp add: send_command_to_all_def or_time_def time_time_def case_prod_beta
        example_world_def run_order_empty_schedule)
qed


lemma send_command_to_all_keys:
  assumes "devs \<noteq> []" and "cmd \<noteq> ''STOP_RECORDING''"
  shows "\<exists>results. fst (send_command_to_all lib w devs cmd ts sync_delay) = Some results
     \<and> fst ` set results = fst ` set devs"
proof -
  let ?st = "if cmd = ''START_RECORDING'' \<and> ts = None
             then (case time_time w of (t, w') \<Rightarrow> (t + sync_delay, w'))
             else or_time ts w"
  obtain t w1 where st: "?st = (t, w1)"
    by (cases ?st)
  have "fst (send_command_to_all lib w devs cmd ts sync_delay) =
      Some (fst (send_and_store_result lib cmd t (run_order (schedule w) devs) [] w1))"
    using assms st by (simp add: send_command_to_all_def split: prod.splits)
  then show ?thesis
    by (simp add: send_and_store_result_keys run_order_set)
qed

lemma retrieve_and_upload_outcome:
  "fst (fst (retrieve_and_upload lib a w n fs)) \<noteq> NoRecordingInProgress"
  by (simp add: retrieve_and_upload_def Let_def split: prod.splits sum.splits)

text \<open>
  Claim C5, amended. \<open>stop_recording\<close> is rejected exactly when no recording is in
  progress, and then neither the application nor the environment changes, so that no
  connection is made. \<open>start_recording\<close> is accepted exactly when the registry is not
  empty and no recording is in progress; with an empty registry it is rejected for lack
  of devices, with devices and a recording in progress it is rejected as already in
  progress, and a rejected start changes nothing either.
\<close>

theorem session_gating:
  "((fst (fst (stop_recording lib a w)) = NoRecordingInProgress) = (\<not> recording_in_progress a))
   \<and> (\<not> recording_in_progress a \<longrightarrow> snd (stop_recording lib a w) = (a, w))
   \<and> ((fst (start_recording lib a w) = (Started (length (discovered_devices (ctl a))), Recording))
        = (discovered_devices (ctl a) \<noteq> [] \<and> \<not> recording_in_progress a))
   \<and> ((fst (fst (start_recording lib a w)) = AlreadyInProgress)
        = (discovered_devices (ctl a) \<noteq> [] \<and> recording_in_progress a))
   \<and> ((fst (fst (start_recording lib a w)) = NoDevicesAvailable)
        = (discovered_devices (ctl a) = []))
   \<and> (discovered_devices (ctl a) = [] \<or> recording_in_progress a
        \<longrightarrow> snd (start_recording lib a w) = (a, w))"
proof -
  let ?devs = "discovered_devices (ctl a)"
  have stop_idle: "stop_recording lib a w = ((NoRecordingInProgress, Ready), a, w)"
    if "\<not> recording_in_progress a"
    using that by (simp add: stop_recording_def)
  have stop_rec: "fst (fst (stop_recording lib a w)) \<noteq> NoRecordingInProgress"
    if "recording_in_progress a"
    using that retrieve_and_upload_outcome
    by (simp add: stop_recording_def Let_def split: prod.splits option.splits)
  have start_none: "start_recording lib a w = ((NoDevicesAvailable, Ready), a, w)"
    if "?devs = []"
    using that by (simp add: start_recording_def)
  have start_busy: "start_recording lib a w = ((AlreadyInProgress, Recording), a, w)"
    if "?devs \<noteq> []" and "recording_in_progress a"
    using that by (simp add: start_recording_def)
  have start_ok: "fst (start_recording lib a w) = (Started (length ?devs), Recording)"
    if d: "?devs \<noteq> []" and i: "\<not> recording_in_progress a"
  proof -
    obtain results where
      r: "fst (send_command_to_all lib w ?devs ''START_RECORDING'' None 3) = Some results"
      and k: "fst ` set results = fst ` set ?devs"
      using send_command_to_all_keys [OF d, of "''START_RECORDING''" lib w None 3] by auto
    have "results \<noteq> []"
      using k d by auto
    then show ?thesis
      using d i r
      by (cases "send_command_to_all lib w ?devs ''START_RECORDING'' None 3")
        (simp add: start_recording_def Let_def)
  qed
  show ?thesis
    using stop_idle stop_rec start_none start_busy start_ok
    by (cases "?devs = []"; cases "recording_in_progress a") auto
qed

text \<open>
  The example installation, once while recording and once while idle.
\<close>

theorem session_gating_witness:
  "fst (fst (stop_recording example_lib (example_app example_devices True) example_world))
     \<noteq> NoRecordingInProgress
   \<and> fst (fst (start_recording example_lib (example_app example_devices True) example_world))
       = AlreadyInProgress
   \<and> snd (start_recording example_lib (example_app example_devices True) example_world)
       = (example_app example_devices True, example_world)
   \<and> fst (fst (stop_recording example_lib (example_app example_devices False) example_world))
       = NoRecordingInProgress
   \<and> snd (stop_recording example_lib (example_app example_devices False) example_world)
       = (example_app example_devices False, example_world)
   \<and> fst (start_recording example_lib (example_app example_devices False) example_world)
       = (Started 3, Recording)"
proof -
  have f: "recording_in_progress (example_app example_devices b) = b"
    and d: "discovered_devices (ctl (example_app example_devices b)) = example_devices"
    for b
    by (simp_all add: example_app_def)
  have n: "example_devices \<noteq> []" and l: "length example_devices = 3"
    by (simp_all add: example_devices_def)
  show ?thesis
    using session_gating [of example_lib "example_app example_devices True" example_world]
      session_gating [of example_lib "example_app example_devices False" example_world]
    by (simp only: f d n l) simp
qed

text \<open>
  Claim C5 as stated fails on an idle session whose registry is empty: the in-progress
  flag is false and the start is rejected all the same.
\<close>

theorem start_idle_rejected_counterexample:
  "\<not> recording_in_progress (example_app [] False)
   \<and> start_recording example_lib (example_app [] False) example_world
       = ((NoDevicesAvailable, Ready), example_app [] False, example_world)"
  by (simp add: start_recording_def example_app_def)


lemma build_message_fst:
  "command (fst (build_message w cmd ts fid)) = cmd"
  by (simp add: build_message_def case_prod_beta)

lemma send_command_try_fst:
  assumes "\<not> refuses (peers w dip dport)" and "\<not> send_fails (peers w dip dport)"
  shows "fst (send_command_try lib w dip dport cmd ts fid) =
     (let sock = reply (peers w dip dport) (fst (build_message w cmd ts fid))
      in if cmd = ''GET_VIDEO'' then
           Inr (fst (handle_file_download lib
                  ((snd (build_message w cmd ts fid))
                     \<lparr>conns := conns w @ [(dip, dport, fst (build_message w cmd ts fid))]\<rparr>)
                  sock dip fid))
         else
           (case (if cmd = ''LIST_FILES'' then fst (recv_list_files lib sock [])
                  else fst (recv 4096 sock)) of
              Inl e \<Rightarrow> Inl e
            | Inr response_data \<Rightarrow> interpret_reply lib cmd response_data))"
proof -
  obtain msg w1 where bm: "build_message w cmd ts fid = (msg, w1)"
    by (cases "build_message w cmd ts fid")
  have w1: "peers w1 = peers w" "conns w1 = conns w"
    using build_message_world [of w cmd ts fid] bm by (simp_all split: if_splits)
  have "fst (send_command_try lib w dip dport cmd ts fid) =
     (let sock = reply (peers w dip dport) msg
      in if cmd = ''GET_VIDEO'' then
           Inr (fst (handle_file_download lib
                  (w1\<lparr>conns := conns w @ [(dip, dport, msg)]\<rparr>) sock dip fid))
         else
           (case (if cmd = ''LIST_FILES'' then fst (recv_list_files lib sock [])
                  else fst (recv 4096 sock)) of
              Inl e \<Rightarrow> Inl e
            | Inr response_data \<Rightarrow> interpret_reply lib cmd response_data))"
    using assms
    by (simp add: send_command_try_def bm w1 Let_def split: prod.splits sum.splits)
  then show ?thesis
    by (simp only: bm fst_conv snd_conv)
qed

lemma send_command_fst:
  "fst (send_command lib w dip dport cmd ts fid) =
     (case fst (send_command_try lib w dip dport cmd ts fid) of
        Inl e \<Rightarrow> PBool False
      | Inr v \<Rightarrow> v)"
  by (simp add: send_command_def split: prod.splits sum.splits)

lemma interpret_reply_stop_dict:
  assumes "response_data \<noteq> []" and "json_decode lib response_data = Some (PDict kvs)"
  shows "interpret_reply lib ''STOP_RECORDING'' response_data =
     Inr (case map_of kvs ''fileId'' of
            None \<Rightarrow> PDict kvs
          | Some v \<Rightarrow> if truthy v then v else PDict kvs)"
proof (cases "map_of kvs ''fileId''")
  case None
  then have "''fileId'' \<notin> set (map fst kvs)"
    by (simp add: map_of_eq_None_iff)
  then show ?thesis
    using assms None by (simp add: interpret_reply_def)
next
  case (Some v)
  then have "''fileId'' \<in> set (map fst kvs)"
    using map_of_eq_None_iff [of kvs "''fileId''"] by simp
  then show ?thesis
    using assms Some by (simp add: interpret_reply_def)
qed

text \<open>
  Claim C8, amended. When a device accepts the connection and the one read of at most
  4096 bytes returns bytes that decode to an object, the outcome of \<open>send_command\<close> for
  \<open>STOP_RECORDING\<close> is the value of the \<open>fileId\<close> field alone when that field is present
  and truthy, whatever the other fields say, and the whole object otherwise.
\<close>

theorem stop_reply_file_id:
  assumes "\<not> refuses (peers w dip dport)" and "\<not> send_fails (peers w dip dport)"
    and "fst (recv 4096 (reply (peers w dip dport)
                (fst (build_message w ''STOP_RECORDING'' ts fid)))) = Inr response_data"
    and "response_data \<noteq> []"
    and "json_decode lib response_data = Some (PDict kvs)"
  shows "fst (send_command lib w dip dport ''STOP_RECORDING'' ts fid) =
     (case map_of kvs ''fileId'' of
        None \<Rightarrow> PDict kvs
      | Some v \<Rightarrow> if truthy v then v else PDict kvs)"
  using assms(3)
  by (simp add: send_command_fst send_command_try_fst [OF assms(1,2)]
      interpret_reply_stop_dict [OF assms(4,5)])

lemma example_camera:
  "\<not> refuses (peers example_world ''10.0.0.1'' 8080)"
  "\<not> send_fails (peers example_world ''10.0.0.1'' 8080)"
  "reply (peers example_world ''10.0.0.1'' 8080) = camera_reply"
  by (simp_all add: example_world_def example_peers_def)

text \<open>
  The camera of the example answers with a file identifier next to an error field: the
  outcome is the identifier.
\<close>

theorem stop_reply_file_id_witness:
  "\<not> refuses (peers example_world ''10.0.0.1'' 8080)
   \<and> \<not> send_fails (peers example_world ''10.0.0.1'' 8080)
   \<and> fst (recv 4096 (reply (peers example_world ''10.0.0.1'' 8080)
            (fst (build_message example_world ''STOP_RECORDING'' None PNone)))) = Inr stop_reply
   \<and> stop_reply \<noteq> []
   \<and> json_decode example_lib stop_reply =
        Some (PDict [(''fileId'', PStr ''rec1''), (''error'', PStr ''disk full'')])
   \<and> fst (send_command example_lib example_world ''10.0.0.1'' 8080 ''STOP_RECORDING''
        None PNone) = PStr ''rec1''"
proof -
  have len: "length stop_reply = 37"
    by (simp add: stop_reply_def)
  have r: "fst (recv 4096 (reply (peers example_world ''10.0.0.1'' 8080)
            (fst (build_message example_world ''STOP_RECORDING'' None PNone)))) = Inr stop_reply"
    by (simp add: example_camera camera_reply_def build_message_fst len)
  have n: "stop_reply \<noteq> []"
    using len by auto
  have j: "json_decode example_lib stop_reply =
        Some (PDict [(''fileId'', PStr ''rec1''), (''error'', PStr ''disk full'')])"
    by (simp add: example_lib_def)
  show ?thesis
    using stop_reply_file_id [OF example_camera(1,2) r n j] example_camera(1,2) r n j
    by simp
qed


lemma example_cut_reply:
  "\<not> refuses (peers example_world ''10.0.0.4'' 8080)"
  "\<not> send_fails (peers example_world ''10.0.0.4'' 8080)"
  "reply (peers example_world ''10.0.0.4'' 8080) m =
     [Data (take 20 stop_reply), Data (drop 20 stop_reply)]"
  by (simp_all add: example_world_def example_peers_def)

text \<open>
  Claim C8 as stated fails when the reply does not arrive in one piece: the fourth device
  sends the camera's reply, file identifier included, in two deliveries; the one read
  returns the first, which does not decode, and the outcome is \<open>False\<close>.
\<close>

theorem stop_reply_cut_counterexample:
  "reply (peers example_world ''10.0.0.4'' 8080)
        (fst (build_message example_world ''STOP_RECORDING'' None PNone)) =
      [Data (take 20 stop_reply), Data (drop 20 stop_reply)]
   \<and> json_decode example_lib (take 20 stop_reply @ drop 20 stop_reply) =
        Some (PDict [(''fileId'', PStr ''rec1''), (''error'', PStr ''disk full'')])
   \<and> fst (send_command example_lib example_world ''10.0.0.4'' 8080 ''STOP_RECORDING''
        None PNone) = PBool False"
proof -
  have whole: "json_decode example_lib (take 20 stop_reply @ drop 20 stop_reply) =
        Some (PDict [(''fileId'', PStr ''rec1''), (''error'', PStr ''disk full'')])"
    by (simp add: example_lib_def)
  have part: "json_decode example_lib (take 20 stop_reply) = None"
    by (simp add: example_lib_def stop_reply_def file_header_def listing_part1_def
        listing_part2_def ok_reply_def)
  have l: "length stop_reply = 37"
    by (simp add: stop_reply_def)
  then have n: "stop_reply \<noteq> []"
    by auto
  have "fst (send_command example_lib example_world ''10.0.0.4'' 8080 ''STOP_RECORDING''
        None PNone) = PBool False"
    by (simp add: send_command_fst send_command_try_fst [OF example_cut_reply(1,2)]
        example_cut_reply(3) l n interpret_reply_def part)
  then show ?thesis
    using whole example_cut_reply(3) by simp
qed

lemma recv_list_files_chunks:
  assumes "cs \<noteq> []"
    and "\<forall>c \<in> set cs. c \<noteq> [] \<and> length c \<le> 8192"
    and "\<forall>k. 0 < k \<and> k < length cs \<longrightarrow> json_decode lib (acc @ concat (take k cs)) = None"
    and "json_decode lib (acc @ concat cs) = Some v"
  shows "recv_list_files lib (map Data cs @ rest) acc = (Inr (acc @ concat cs), rest)"
  using assms
proof (induction cs arbitrary: acc)
  case Nil
  then show ?case by simp
next
  case (Cons c cs)
  have c: "c \<noteq> []" "length c \<le> 8192"
    using Cons.prems(2) by simp_all
  have step: "recv 8192 (map Data (c # cs) @ rest) = (Inr c, map Data cs @ rest)"
    using c by simp
  show ?case
  proof (cases "cs = []")
    case True
    then have "json_decode lib (acc @ c) = Some v"
      using Cons.prems(4) by simp
    then show ?thesis
      using True c by (subst recv_list_files.simps) (simp add: step)
  next
    case False
    have none: "json_decode lib (acc @ c) = None"
      using Cons.prems(3) [rule_format, of 1] False by simp
    have later: "\<forall>k. 0 < k \<and> k < length cs \<longrightarrow>
        json_decode lib ((acc @ c) @ concat (take k cs)) = None"
    proof (intro allI impI)
      fix k
      assume "0 < k \<and> k < length cs"
      then show "json_decode lib ((acc @ c) @ concat (take k cs)) = None"
        using Cons.prems(3) [rule_format, of "Suc k"] by simp
    qed
    have "recv_list_files lib (map Data cs @ rest) (acc @ c) =
        (Inr ((acc @ c) @ concat cs), rest)"
      using Cons.IH [OF False _ later] Cons.prems(2,4) by simp
    then show ?thesis
      using c none by (subst recv_list_files.simps) (simp add: step)
  qed
qed

text \<open>
  Claim C4, amended. For \<open>LIST_FILES\<close>, when the reply arrives in deliveries of at most
  8192 bytes, no proper prefix of which decodes and all of which together decode to a
  value, the loop returns exactly these deliveries, leaves what follows them unread, and
  the outcome is the decoded value. Every other command except \<open>GET_VIDEO\<close> reads its
  reply with one \<open>recv(4096)\<close>.
\<close>

theorem list_files_reply_assembled:
  assumes "\<not> refuses (peers w dip dport)" and "\<not> send_fails (peers w dip dport)"
    and "reply (peers w dip dport) (fst (build_message w ''LIST_FILES'' ts fid)) =
           map Data cs @ rest"
    and "cs \<noteq> []"
    and "\<forall>c \<in> set cs. c \<noteq> [] \<and> length c \<le> 8192"
    and "\<forall>k. 0 < k \<and> k < length cs \<longrightarrow> json_decode lib (concat (take k cs)) = None"
    and "json_decode lib (concat cs) = Some v"
  shows "recv_list_files lib (map Data cs @ rest) [] = (Inr (concat cs), rest)
     \<and> fst (send_command lib w dip dport ''LIST_FILES'' ts fid) = v
     \<and> (\<forall>cmd. cmd \<noteq> ''GET_VIDEO'' \<and> cmd \<noteq> ''LIST_FILES'' \<longrightarrow>
          fst (send_command_try lib w dip dport cmd ts fid) =
            (case fst (recv 4096 (reply (peers w dip dport)
                    (fst (build_message w cmd ts fid)))) of
               Inl e \<Rightarrow> Inl e
             | Inr response_data \<Rightarrow> interpret_reply lib cmd response_data))"
proof -
  have loop: "recv_list_files lib (map Data cs @ rest) [] = (Inr (concat cs), rest)"
    using recv_list_files_chunks [of cs lib "[]" v rest] assms(4-7) by simp
  have "concat cs \<noteq> []"
    using assms(4,5) by (cases cs) auto
  then have "interpret_reply lib ''LIST_FILES'' (concat cs) = Inr v"
    using assms(7) by (simp add: interpret_reply_def)
  then have result: "fst (send_command lib w dip dport ''LIST_FILES'' ts fid) = v"
    by (simp add: send_command_fst send_command_try_fst [OF assms(1,2)] assms(3) loop)
  have single: "fst (send_command_try lib w dip dport cmd ts fid) =
            (case fst (recv 4096 (reply (peers w dip dport)
                    (fst (build_message w cmd ts fid)))) of
               Inl e \<Rightarrow> Inl e
             | Inr response_data \<Rightarrow> interpret_reply lib cmd response_data)"
    if "cmd \<noteq> ''GET_VIDEO'' \<and> cmd \<noteq> ''LIST_FILES''" for cmd
    using that by (simp add: send_command_try_fst [OF assms(1,2)])
  show ?thesis
    using loop result single by blast
qed

lemma example_listing:
  "json_decode example_lib listing_part1 = None"
  "json_decode example_lib (listing_part1 @ listing_part2) = Some (PDict [(''files'', PList [])])"
  by (simp_all add: example_lib_def listing_part1_def listing_part2_def stop_reply_def
      file_header_def ok_reply_def)

text \<open>
  The listing of the example camera arrives in two parts and is decoded whole.
\<close>

theorem list_files_reply_assembled_witness:
  "\<not> refuses (peers example_world ''10.0.0.1'' 8080)
   \<and> \<not> send_fails (peers example_world ''10.0.0.1'' 8080)
   \<and> reply (peers example_world ''10.0.0.1'' 8080)
        (fst (build_message example_world ''LIST_FILES'' None PNone)) =
      map Data [listing_part1, listing_part2] @ []
   \<and> json_decode example_lib listing_part1 = None
   \<and> json_decode example_lib (concat [listing_part1, listing_part2]) =
        Some (PDict [(''files'', PList [])])
   \<and> recv_list_files example_lib (map Data [listing_part1, listing_part2] @ []) [] =
        (Inr (concat [listing_part1, listing_part2]), [])
   \<and> fst (send_command example_lib example_world ''10.0.0.1'' 8080 ''LIST_FILES'' None PNone)
        = PDict [(''files'', PList [])]"
proof -
  let ?cs = "[listing_part1, listing_part2]"
  have r: "reply (peers example_world ''10.0.0.1'' 8080)
        (fst (build_message example_world ''LIST_FILES'' None PNone)) = map Data ?cs @ []"
    by (simp add: example_camera camera_reply_def build_message_fst)
  have n: "?cs \<noteq> []"
    by simp
  have b: "\<forall>c \<in> set ?cs. c \<noteq> [] \<and> length c \<le> 8192"
    by (simp add: listing_part1_def listing_part2_def)
  have p: "\<forall>k. 0 < k \<and> k < length ?cs \<longrightarrow> json_decode example_lib (concat (take k ?cs)) = None"
  proof (intro allI impI)
    fix k :: nat
    assume "0 < k \<and> k < length ?cs"
    then have "k = 1" by simp
    then show "json_decode example_lib (concat (take k ?cs)) = None"
      by (simp add: example_listing(1))
  qed
  have j: "json_decode example_lib (concat ?cs) = Some (PDict [(''files'', PList [])])"
    by (simp add: example_listing(2))
  show ?thesis
    using list_files_reply_assembled [OF example_camera(1,2) r n b p j]
      example_camera(1,2) r example_listing(1) j
    by blast
qed

text \<open>
  Claim C4 as stated fails for \<open>DEVICE_STATUS\<close>: the same two deliveries are not put
  together, the first alone does not decode, and the outcome is \<open>False\<close>.
\<close>

theorem status_reply_split_counterexample:
  "reply (peers example_world ''10.0.0.1'' 8080)
        (fst (build_message example_world ''DEVICE_STATUS'' None PNone)) =
      [Data listing_part1, Data listing_part2]
   \<and> json_decode example_lib (listing_part1 @ listing_part2) =
        Some (PDict [(''files'', PList [])])
   \<and> fst (send_command example_lib example_world ''10.0.0.1'' 8080 ''DEVICE_STATUS''
        None PNone) = PBool False"
proof -
  have r: "reply (peers example_world ''10.0.0.1'' 8080)
        (fst (build_message example_world ''DEVICE_STATUS'' None PNone)) =
      [Data listing_part1, Data listing_part2]"
    by (simp add: example_camera camera_reply_def build_message_fst)
  have l: "length listing_part1 \<le> 4096" "listing_part1 \<noteq> []"
    by (simp_all add: listing_part1_def)
  have "fst (send_command example_lib example_world ''10.0.0.1'' 8080 ''DEVICE_STATUS''
        None PNone) = PBool False"
    by (simp add: send_command_fst send_command_try_fst [OF example_camera(1,2)] r l
        interpret_reply_def example_listing(1))
  then show ?thesis
    using r example_listing(2) by simp
qed


lemma handle_file_download_first_read_fails:
  "fst (handle_file_download lib w (Timeout # es) dip fid) = PBool False"
  "fst (handle_file_download lib w (Reset # es) dip fid) = PBool False"
  by (simp_all add: handle_file_download_def handle_file_download_try_def)

lemma recv_list_files_first:
  "fst (recv_list_files lib (Timeout # es) []) = Inr []"
  "fst (recv_list_files lib (Reset # es) []) = Inl OSError"
  by (subst recv_list_files.simps, simp)+

text \<open>
  Claim C7, amended. \<open>send_command\<close> turns every exception of its body into the outcome
  \<open>False\<close>. A refused connection and a failed send raise, so the outcome is \<open>False\<close>;
  so is it when the first read meets a socket error, for every command. When the first
  read times out the outcome is \<open>False\<close> for every command except \<open>LIST_FILES\<close>, whose
  loop takes the timeout for the end of the reply: with nothing received the outcome is
  \<open>True\<close>.
\<close>

theorem send_command_failures:
  "fst (send_command lib w dip dport cmd ts fid) =
     (case fst (send_command_try lib w dip dport cmd ts fid) of
        Inl e \<Rightarrow> PBool False
      | Inr v \<Rightarrow> v)
   \<and> (refuses (peers w dip dport) \<or> send_fails (peers w dip dport) \<longrightarrow>
        (\<exists>e. fst (send_command_try lib w dip dport cmd ts fid) = Inl e)
        \<and> fst (send_command lib w dip dport cmd ts fid) = PBool False)
   \<and> (\<not> refuses (peers w dip dport) \<and> \<not> send_fails (peers w dip dport)
        \<and> (\<exists>es. reply (peers w dip dport) (fst (build_message w cmd ts fid)) = Reset # es) \<longrightarrow>
        fst (send_command lib w dip dport cmd ts fid) = PBool False)
   \<and> (\<not> refuses (peers w dip dport) \<and> \<not> send_fails (peers w dip dport)
        \<and> (\<exists>es. reply (peers w dip dport) (fst (build_message w cmd ts fid)) = Timeout # es) \<longrightarrow>
        fst (send_command lib w dip dport cmd ts fid) = PBool (cmd = ''LIST_FILES''))"
proof -
  let ?p = "peers w dip dport"
  let ?sock = "reply ?p (fst (build_message w cmd ts fid))"
  have refused: "(\<exists>e. fst (send_command_try lib w dip dport cmd ts fid) = Inl e)
        \<and> fst (send_command lib w dip dport cmd ts fid) = PBool False"
    if bad: "refuses ?p \<or> send_fails ?p"
  proof -
    have "fst (send_command_try lib w dip dport cmd ts fid) =
        Inl (if refuses ?p then ConnectionError else OSError)"
      by (subst send_command_refused(1) [OF bad]) simp
    then show ?thesis
      using send_command_refused(2) [OF bad] by blast
  qed
  have reset: "fst (send_command lib w dip dport cmd ts fid) = PBool False"
    if ok: "\<not> refuses ?p" "\<not> send_fails ?p" and r: "?sock = Reset # es" for es
    by (simp add: send_command_fst send_command_try_fst [OF ok] r recv_list_files_first
        handle_file_download_first_read_fails Let_def)
  have timeout: "fst (send_command lib w dip dport cmd ts fid) = PBool (cmd = ''LIST_FILES'')"
    if ok: "\<not> refuses ?p" "\<not> send_fails ?p" and r: "?sock = Timeout # es" for es
    by (simp add: send_command_fst send_command_try_fst [OF ok] r recv_list_files_first
        handle_file_download_first_read_fails interpret_reply_def Let_def)
  show ?thesis
    using refused reset timeout send_command_fst [of lib w dip dport cmd ts fid]
    by blast
qed

lemma example_silent:
  "\<not> refuses (peers example_world ''10.0.0.3'' 8080)"
  "\<not> send_fails (peers example_world ''10.0.0.3'' 8080)"
  "reply (peers example_world ''10.0.0.3'' 8080) m = [Timeout]"
  by (simp_all add: example_world_def example_peers_def)

text \<open>
  In the example, the closed port and the silent device both yield \<open>False\<close> for
  \<open>DEVICE_STATUS\<close>.
\<close>

theorem send_command_failures_witness:
  "refuses (peers example_world ''10.0.0.2'' 8080)
   \<and> fst (send_command example_lib example_world ''10.0.0.2'' 8080 ''DEVICE_STATUS'' None PNone)
       = PBool False
   \<and> \<not> refuses (peers example_world ''10.0.0.3'' 8080)
   \<and> \<not> send_fails (peers example_world ''10.0.0.3'' 8080)
   \<and> reply (peers example_world ''10.0.0.3'' 8080)
        (fst (build_message example_world ''DEVICE_STATUS'' None PNone)) = [Timeout]
   \<and> fst (send_command example_lib example_world ''10.0.0.3'' 8080 ''DEVICE_STATUS'' None PNone)
       = PBool False"
proof -
  have r: "refuses (peers example_world ''10.0.0.2'' 8080)"
    by (simp add: example_world_def example_peers_def)
  have a: "fst (send_command example_lib example_world ''10.0.0.2'' 8080 ''DEVICE_STATUS''
        None PNone) = PBool False"
    using send_command_failures [of example_lib example_world "''10.0.0.2''" 8080
        "''DEVICE_STATUS''" None PNone] r
    by blast
  have "fst (send_command example_lib example_world ''10.0.0.3'' 8080 ''DEVICE_STATUS''
        None PNone) = PBool (''DEVICE_STATUS'' = ''LIST_FILES'')"
    using send_command_failures [of example_lib example_world "''10.0.0.3''" 8080
        "''DEVICE_STATUS''" None PNone] example_silent
    by blast
  then have b: "fst (send_command example_lib example_world ''10.0.0.3'' 8080 ''DEVICE_STATUS''
        None PNone) = PBool False"
    by simp
  show ?thesis
    using r a b example_silent by blast
qed

text \<open>
  Claim C7 as stated fails for \<open>LIST_FILES\<close> sent to the silent device: the read times
  out and the outcome is \<open>True\<close>, not a failure.
\<close>

theorem list_files_timeout_counterexample:
  "reply (peers example_world ''10.0.0.3'' 8080)
        (fst (build_message example_world ''LIST_FILES'' None PNone)) = [Timeout]
   \<and> fst (recv 8192 [Timeout]) = Inl SocketTimeout
   \<and> fst (send_command example_lib example_world ''10.0.0.3'' 8080 ''LIST_FILES'' None PNone)
       = PBool True"
  by (simp add: send_command_fst send_command_try_fst [OF example_silent(1,2)] example_silent(3)
      recv_list_files_first interpret_reply_def Let_def)


lemma send_command_get_video:
  assumes "\<not> refuses (peers w dip dport)" and "\<not> send_fails (peers w dip dport)"
  shows "send_command lib w dip dport ''GET_VIDEO'' ts fid =
     handle_file_download lib
       ((snd (build_message w ''GET_VIDEO'' ts fid))
          \<lparr>conns := conns w @ [(dip, dport, fst (build_message w ''GET_VIDEO'' ts fid))]\<rparr>)
       (reply (peers w dip dport) (fst (build_message w ''GET_VIDEO'' ts fid))) dip fid"
proof -
  obtain msg w1 where bm: "build_message w ''GET_VIDEO'' ts fid = (msg, w1)"
    by (cases "build_message w ''GET_VIDEO'' ts fid")
  have w1: "peers w1 = peers w" "conns w1 = conns w"
    using build_message_world [of w "''GET_VIDEO''" ts fid] bm by (simp_all split: if_splits)
  show ?thesis
    using assms
    by (simp add: send_command_def send_command_try_def bm w1 Let_def split: prod.splits)
qed

lemma recv_header_one_chunk:
  "header \<noteq> [] \<Longrightarrow> recv_header (length header) (Data header # es) [] = (Inr header, es)"
  by (subst recv_header.simps, simp, subst recv_header.simps, simp)

lemma recv_file_short_chunk:
  assumes "body \<noteq> []" and "length body \<le> 8192" and "int (length body) < file_size"
  shows "recv_file file_size 0 [Data body] [] = (None, body)"
proof -
  have "length body \<le> nat (min 8192 file_size)"
    using assms(2,3) by simp
  then have "recv (nat (min 8192 file_size)) [Data body] = (Inr body, [])"
    by simp
  then have "recv_file file_size 0 [Data body] [] =
      recv_file file_size (int (length body)) [] body"
    using assms(1,3) by (subst recv_file.simps) simp
  also have "\<dots> = (None, body)"
    using assms(3) by (subst recv_file.simps) simp
  finally show ?thesis .
qed

lemma download_short_body:
  assumes "length size_data = 4" and "unpack_be32 size_data = length header"
    and "header \<noteq> []"
    and "parse_header lib w dip header = Inr (local_path, file_size)"
    and "\<not> unwritable w local_path"
    and "body \<noteq> []" and "length body \<le> 8192" and "int (length body) < file_size"
  shows "handle_file_download lib w [Data size_data, Data header, Data body] dip fid =
     (PStr local_path, w\<lparr>files := (files w)(local_path \<mapsto> body)\<rparr>)"
  using assms(1,2,4,5)
  by (simp add: handle_file_download_def handle_file_download_try_def
      recv_header_one_chunk [OF assms(3)] write_download_def
      recv_file_short_chunk [OF assms(6,7,8)])

lemma example_header:
  "parse_header example_lib w ''10.0.0.1'' file_header =
     Inr (home w @ ''/Downloads/multiCam/10_0_0_1_a.mov'', 1000)"
proof -
  have "json_decode example_lib file_header =
      Some (PDict [(''fileName'', PStr ''a.mov''), (''fileSize'', PInt 1000)])"
    by (simp add: example_lib_def file_header_def stop_reply_def)
  moreover have "str_of example_lib (PStr ''a.mov'') = ''a.mov''"
    by (simp add: example_lib_def)
  moreover have "abs (1000 :: int) < float_limit"
    by (simp add: float_limit_def)
  ultimately show ?thesis
    by (simp add: parse_header_def path_join_def downloads_dir_def replace_dots_def)
qed

text \<open>
  Claim C2, at the input of the specification's own example. The camera announces a
  file of 1000 bytes, sends 500 and closes the connection. The loop that writes the file
  leaves by \<open>break\<close>, and \<open>_handle_file_download\<close> returns the local path as it does
  after a complete transfer; the 500 bytes are on disk under that path.
\<close>

theorem short_transfer_returns_path:
  "reply (peers example_world ''10.0.0.1'' 8080)
        (fst (build_message example_world ''GET_VIDEO'' None (PStr ''rec1''))) =
      [Data [0, 0, 0, 36], Data file_header, Data (replicate 500 0)]
   \<and> json_decode example_lib file_header =
        Some (PDict [(''fileName'', PStr ''a.mov''), (''fileSize'', PInt 1000)])
   \<and> fst (send_command example_lib example_world ''10.0.0.1'' 8080 ''GET_VIDEO'' None
        (PStr ''rec1'')) = PStr ''/home/cam/Downloads/multiCam/10_0_0_1_a.mov''
   \<and> files (snd (send_command example_lib example_world ''10.0.0.1'' 8080 ''GET_VIDEO'' None
        (PStr ''rec1''))) ''/home/cam/Downloads/multiCam/10_0_0_1_a.mov'' =
      Some (replicate 500 0)"
proof -
  let ?msg = "fst (build_message example_world ''GET_VIDEO'' None (PStr ''rec1''))"
  let ?w2 = "(snd (build_message example_world ''GET_VIDEO'' None (PStr ''rec1'')))
          \<lparr>conns := conns example_world @ [(''10.0.0.1'', 8080, ?msg)]\<rparr>"
  let ?path = "''/home/cam/Downloads/multiCam/10_0_0_1_a.mov''"
  have r: "reply (peers example_world ''10.0.0.1'' 8080) ?msg =
      [Data [0, 0, 0, 36], Data file_header, Data (replicate 500 0)]"
    by (simp add: example_camera camera_reply_def build_message_fst)
  have j: "json_decode example_lib file_header =
        Some (PDict [(''fileName'', PStr ''a.mov''), (''fileSize'', PInt 1000)])"
    by (simp add: example_lib_def file_header_def stop_reply_def)
  have env: "home ?w2 = ''/home/cam''" "\<not> unwritable ?w2 p" for p
    by (simp_all add: build_message_world example_world_def)
  have hdr: "parse_header example_lib ?w2 ''10.0.0.1'' file_header = Inr (?path, 1000)"
    by (simp add: example_header env)
  have len: "length file_header = 36" "file_header \<noteq> []"
    by (simp_all add: file_header_def)
  have size: "length [0, 0, 0, 36 :: 8 word] = 4" "unpack_be32 [0, 0, 0, 36] = length file_header"
    by (simp_all add: unpack_be32_def len)
  have "send_command example_lib example_world ''10.0.0.1'' 8080 ''GET_VIDEO'' None
        (PStr ''rec1'') =
      (PStr ?path, ?w2\<lparr>files := (files ?w2)(?path \<mapsto> replicate 500 0)\<rparr>)"
    unfolding send_command_get_video [OF example_camera(1,2)] r
    by (rule download_short_body [OF size len(2) hdr env(2)]) simp_all
  then show ?thesis
    using r j by simp
qed

























end
